theory Spec2Isabelle
  imports Main "HOL-Library.Word"
begin

unbundle bit_operations_syntax

section \<open>The WebAssembly backend of the dynamic loader (mono-dl-wasm.c)\<close>

subsection \<open>Data model\<close>

text \<open>
  A C \<open>int\<close> is a 32-bit value. The translator only combines its arguments with
  \<open>&\<close> and \<open>|\<close>, which act on the bit pattern, so the signed reading never matters.
\<close>

type_synonym c_int = "32 word"

text \<open>
  The body of the file is compiled only where \<open>HOST_WASM\<close> is defined; this is a model
  of that build.

  The file is compiled against two headers that it does not contain: mono-dl.h, which
  gives the portable flags \<open>MONO_DL_GLOBAL\<close>, \<open>MONO_DL_LOCAL\<close> and \<open>MONO_DL_LAZY\<close>, and the
  host's dlfcn.h, which gives \<open>RTLD_GLOBAL\<close>, \<open>RTLD_LOCAL\<close>, \<open>RTLD_LAZY\<close> and \<open>RTLD_NOW\<close>.
  Their values are parameters of the model, together with the preprocessor switch
  \<open>HOST_WASI\<close> that selects the minimal host. Nothing is assumed about the values:
  a flag may be any bit pattern, several bits or none.
\<close>

record build =
  HOST_WASI :: bool
  MONO_DL_GLOBAL :: c_int
  MONO_DL_LOCAL :: c_int
  MONO_DL_LAZY :: c_int
  RTLD_GLOBAL :: c_int
  RTLD_LOCAL :: c_int
  RTLD_LAZY :: c_int
  RTLD_NOW :: c_int

text \<open>
  A pointer is an address or \<open>NULL\<close>. A \<open>const char *\<close> that is only read is modelled
  by the string it points to, \<open>None\<close> standing for \<open>NULL\<close>.
\<close>

type_synonym addr = nat
type_synonym ptr = "addr option"
type_synonym c_string = "string option"

subsection \<open>The flag translator\<close>

text \<open>
  \<^verbatim>\<open>
  int lflags = native_flags;
  #ifndef HOST_WASI
    if (mono_flags & MONO_DL_GLOBAL && !(mono_flags & MONO_DL_LOCAL))
      lflags |= RTLD_GLOBAL;
    else
      lflags |= RTLD_LOCAL;
    if (mono_flags & MONO_DL_LAZY)
      lflags |= RTLD_LAZY;
    else
      lflags |= RTLD_NOW;
  #endif
  return lflags;
  \<close>
  In C, \<open>&\<close> binds tighter than \<open>&&\<close>, and an \<open>int\<close> is true when it is not zero.
\<close>

definition mono_dl_convert_flags :: "build \<Rightarrow> c_int \<Rightarrow> c_int \<Rightarrow> c_int" where
  "mono_dl_convert_flags cfg mono_flags native_flags =
     (let lflags = native_flags in
      if HOST_WASI cfg then lflags
      else
        let lflags =
              (if mono_flags AND MONO_DL_GLOBAL cfg \<noteq> 0 \<and>
                  \<not> (mono_flags AND MONO_DL_LOCAL cfg \<noteq> 0)
               then lflags OR RTLD_GLOBAL cfg
               else lflags OR RTLD_LOCAL cfg);
            lflags =
              (if mono_flags AND MONO_DL_LAZY cfg \<noteq> 0
               then lflags OR RTLD_LAZY cfg
               else lflags OR RTLD_NOW cfg)
        in lflags)"

text \<open>
  A full host and a minimal host to run the translator on: the portable flags and the
  host flags are distinct single bits, except \<open>RTLD_LOCAL\<close>, which is zero as it is
  on hosts where local scope is the loader's default.
\<close>

definition full_host :: build where
  "full_host =
     \<lparr>HOST_WASI = False,
      MONO_DL_GLOBAL = 4, MONO_DL_LOCAL = 2, MONO_DL_LAZY = 1,
      RTLD_GLOBAL = 256, RTLD_LOCAL = 0, RTLD_LAZY = 1, RTLD_NOW = 2\<rparr>"

definition wasi_host :: build where
  "wasi_host = full_host\<lparr>HOST_WASI := True\<rparr>"

subsection \<open>Memory\<close>

text \<open>
  \<open>MonoDl\<close> and \<open>MonoError\<close> are declared elsewhere and are opaque here, so the
  model is polymorphic in both. The memory the operations could reach is a store of
  module objects, a store of error sinks, and the heap of strings handed out by the
  runtime's allocator, kept as a list of live blocks (address and contents).
  An operation that takes or returns a pointer to mutable memory takes the memory and
  returns it with its result.
\<close>

record ('m, 'e) world =
  dl_modules :: "addr \<rightharpoonup> 'm"
  mono_errors :: "addr \<rightharpoonup> 'e"
  g_heap :: "(addr \<times> string) list"

text \<open>
  Modelled from the spec: \<open>g_strdup\<close> belongs to the runtime's eglib and is not in this
  file. The spec says of its one use that it yields "a freshly allocated empty string
  (ownership transferred to caller; caller releases)" and that the accessor "always
  yields the empty string". So \<open>g_strdup\<close> never fails: it takes an address above every
  live block and adds a block there that holds a copy of its argument.
\<close>

definition g_fresh :: "(addr \<times> string) list \<Rightarrow> addr" where
  "g_fresh h = Suc (foldr max (map fst h) 0)"

definition g_strdup :: "string \<Rightarrow> (addr \<times> string) list \<Rightarrow> ptr \<times> (addr \<times> string) list" where
  "g_strdup str h = (let p = g_fresh h in (Some p, (p, str) # h))"

subsection \<open>Platform shape\<close>

text \<open>\<^verbatim>\<open>const char * mono_dl_get_so_prefix (void) { return ""; }\<close>\<close>

definition mono_dl_get_so_prefix :: c_string where
  "mono_dl_get_so_prefix = Some ''''"

text \<open>
  \<^verbatim>\<open>static const char *suffixes[] = { ".wasm", "", }; return suffixes;\<close>
  The array has two entries, each a pointer to a string literal; it has no \<open>NULL\<close>
  entry.
\<close>

definition mono_dl_get_so_suffixes :: "c_string list" where
  "mono_dl_get_so_suffixes = [Some ''.wasm'', Some '''']"

text \<open>\<^verbatim>\<open>const char* mono_dl_get_system_dir (void) { return NULL; }\<close>\<close>

definition mono_dl_get_system_dir :: c_string where
  "mono_dl_get_system_dir = None"

subsection \<open>Inert operations\<close>

text \<open>\<^verbatim>\<open>void* mono_dl_lookup_symbol (MonoDl *module, const char *name) { return NULL; }\<close>\<close>

definition mono_dl_lookup_symbol ::
  "ptr \<Rightarrow> c_string \<Rightarrow> ('m, 'e) world \<Rightarrow> ptr \<times> ('m, 'e) world" where
  "mono_dl_lookup_symbol module name w = (None, w)"

text \<open>\<^verbatim>\<open>char* mono_dl_current_error_string (void) { return g_strdup (""); }\<close>\<close>

definition mono_dl_current_error_string :: "('m, 'e) world \<Rightarrow> ptr \<times> ('m, 'e) world" where
  "mono_dl_current_error_string w =
     (case g_strdup '''' (g_heap w) of (p, h) \<Rightarrow> (p, w\<lparr>g_heap := h\<rparr>))"

text \<open>
  \<^verbatim>\<open>void * mono_dl_open_file (const char *file, int flags, MonoError *error) { return NULL; }\<close>
\<close>

definition mono_dl_open_file ::
  "c_string \<Rightarrow> c_int \<Rightarrow> ptr \<Rightarrow> ('m, 'e) world \<Rightarrow> ptr \<times> ('m, 'e) world" where
  "mono_dl_open_file file flags error w = (None, w)"

text \<open>\<^verbatim>\<open>void mono_dl_close_handle (MonoDl *module, MonoError *error) { }\<close>\<close>

definition mono_dl_close_handle ::
  "ptr \<Rightarrow> ptr \<Rightarrow> ('m, 'e) world \<Rightarrow> ('m, 'e) world" where
  "mono_dl_close_handle module error w = w"

section \<open>Properties of the flag translator\<close>

lemma or_mid_absorb: "x AND ((b OR x) OR y) = x"
  for x b y :: c_int
  by (simp add: bit_eq_iff bit_and_iff bit_or_iff) blast

text \<open>
  C1. On the full host the scope step ORs \<open>RTLD_GLOBAL\<close> into the baseline exactly when
  the portable flags request GLOBAL and do not request LOCAL, and ORs \<open>RTLD_LOCAL\<close> in
  every other case; the result is the baseline, that scope flag and the binding flag
  ORed together. When GLOBAL is requested without LOCAL, every bit of \<open>RTLD_GLOBAL\<close> is
  set in the result. When both GLOBAL and LOCAL are requested, every bit of \<open>RTLD_LOCAL\<close>
  is set in the result, and the result is the baseline with \<open>RTLD_LOCAL\<close> and one
  binding flag: \<open>RTLD_GLOBAL\<close> is not among the contributions, so a bit is set in the
  result only if the baseline, \<open>RTLD_LOCAL\<close> or a binding flag has it.
\<close>

theorem convert_flags_scope:
  assumes "\<not> HOST_WASI cfg"
  shows "mono_dl_convert_flags cfg F B =
           (B OR (if F AND MONO_DL_GLOBAL cfg \<noteq> 0 \<and> F AND MONO_DL_LOCAL cfg = 0
                  then RTLD_GLOBAL cfg else RTLD_LOCAL cfg))
             OR (if F AND MONO_DL_LAZY cfg \<noteq> 0 then RTLD_LAZY cfg else RTLD_NOW cfg)
         \<and> (F AND MONO_DL_GLOBAL cfg \<noteq> 0 \<and> F AND MONO_DL_LOCAL cfg = 0 \<longrightarrow>
              RTLD_GLOBAL cfg AND mono_dl_convert_flags cfg F B = RTLD_GLOBAL cfg)
         \<and> (F AND MONO_DL_GLOBAL cfg \<noteq> 0 \<and> F AND MONO_DL_LOCAL cfg \<noteq> 0 \<longrightarrow>
              RTLD_LOCAL cfg AND mono_dl_convert_flags cfg F B = RTLD_LOCAL cfg \<and>
              (\<exists>binding. (binding = RTLD_LAZY cfg \<or> binding = RTLD_NOW cfg) \<and>
                 mono_dl_convert_flags cfg F B = (B OR RTLD_LOCAL cfg) OR binding) \<and>
              (\<forall>n. bit (mono_dl_convert_flags cfg F B) n \<longrightarrow>
                 bit B n \<or> bit (RTLD_LOCAL cfg) n \<or> bit (RTLD_LAZY cfg) n \<or> bit (RTLD_NOW cfg) n))"
proof -
  let ?binding = "if F AND MONO_DL_LAZY cfg \<noteq> 0 then RTLD_LAZY cfg else RTLD_NOW cfg"
  have eq: "mono_dl_convert_flags cfg F B =
           (B OR (if F AND MONO_DL_GLOBAL cfg \<noteq> 0 \<and> F AND MONO_DL_LOCAL cfg = 0
                  then RTLD_GLOBAL cfg else RTLD_LOCAL cfg))
             OR ?binding"
    using assms by (simp add: mono_dl_convert_flags_def Let_def)
  have glob: "RTLD_GLOBAL cfg AND mono_dl_convert_flags cfg F B = RTLD_GLOBAL cfg"
    if only: "F AND MONO_DL_GLOBAL cfg \<noteq> 0 \<and> F AND MONO_DL_LOCAL cfg = 0"
  proof -
    from only eq have "mono_dl_convert_flags cfg F B = (B OR RTLD_GLOBAL cfg) OR ?binding"
      by simp
    then show ?thesis by (simp only: or_mid_absorb)
  qed
  have tie: "RTLD_LOCAL cfg AND mono_dl_convert_flags cfg F B = RTLD_LOCAL cfg \<and>
      (\<exists>binding. (binding = RTLD_LAZY cfg \<or> binding = RTLD_NOW cfg) \<and>
         mono_dl_convert_flags cfg F B = (B OR RTLD_LOCAL cfg) OR binding) \<and>
      (\<forall>n. bit (mono_dl_convert_flags cfg F B) n \<longrightarrow>
         bit B n \<or> bit (RTLD_LOCAL cfg) n \<or> bit (RTLD_LAZY cfg) n \<or> bit (RTLD_NOW cfg) n)"
    if both: "F AND MONO_DL_GLOBAL cfg \<noteq> 0 \<and> F AND MONO_DL_LOCAL cfg \<noteq> 0"
  proof -
    from both eq have r: "mono_dl_convert_flags cfg F B = (B OR RTLD_LOCAL cfg) OR ?binding"
      by simp
    then have has_local: "RTLD_LOCAL cfg AND mono_dl_convert_flags cfg F B = RTLD_LOCAL cfg"
      by (simp only: or_mid_absorb)
    have choice: "?binding = RTLD_LAZY cfg \<or> ?binding = RTLD_NOW cfg"
      by simp
    with r have ex: "\<exists>binding. (binding = RTLD_LAZY cfg \<or> binding = RTLD_NOW cfg) \<and>
         mono_dl_convert_flags cfg F B = (B OR RTLD_LOCAL cfg) OR binding"
      by blast
    have bits: "bit B n \<or> bit (RTLD_LOCAL cfg) n \<or> bit (RTLD_LAZY cfg) n \<or> bit (RTLD_NOW cfg) n"
      if "bit (mono_dl_convert_flags cfg F B) n" for n
      using that unfolding r by (auto simp: bit_or_iff split: if_splits)
    from has_local ex bits show ?thesis by blast
  qed
  from eq glob tie show ?thesis by blast
qed

theorem convert_flags_scope_witness:
  "\<not> HOST_WASI full_host
   \<and> (6 :: c_int) AND MONO_DL_GLOBAL full_host \<noteq> 0
   \<and> (6 :: c_int) AND MONO_DL_LOCAL full_host \<noteq> 0
   \<and> mono_dl_convert_flags full_host 6 0 = 2
   \<and> RTLD_LOCAL full_host AND mono_dl_convert_flags full_host 6 0 = RTLD_LOCAL full_host
   \<and> mono_dl_convert_flags full_host 7 4096 = 4097
   \<and> (4 :: c_int) AND MONO_DL_GLOBAL full_host \<noteq> 0
   \<and> (4 :: c_int) AND MONO_DL_LOCAL full_host = 0
   \<and> mono_dl_convert_flags full_host 4 4096 = 4354
   \<and> RTLD_GLOBAL full_host AND mono_dl_convert_flags full_host 4 4096 = RTLD_GLOBAL full_host"
  using convert_flags_scope [of full_host 6 0] convert_flags_scope [of full_host 7 4096]
    convert_flags_scope [of full_host 4 4096]
  by (simp add: full_host_def)

text \<open>
  C2. On the full host the binding step ORs \<open>RTLD_LAZY\<close> into the flags exactly when the
  portable flags request LAZY, and ORs \<open>RTLD_NOW\<close> in every other case. For example,
  where GLOBAL is a flag of its own (not zero, and sharing no bit with LOCAL or LAZY),
  translating GLOBAL over the baseline 0 gives \<open>RTLD_GLOBAL | RTLD_NOW\<close>.
\<close>

theorem convert_flags_binding:
  assumes "\<not> HOST_WASI cfg"
  shows "(\<exists>scope. (scope = RTLD_GLOBAL cfg \<or> scope = RTLD_LOCAL cfg) \<and>
            mono_dl_convert_flags cfg F B =
              (B OR scope) OR (if F AND MONO_DL_LAZY cfg \<noteq> 0 then RTLD_LAZY cfg else RTLD_NOW cfg))
         \<and> (if F AND MONO_DL_LAZY cfg \<noteq> 0
             then RTLD_LAZY cfg AND mono_dl_convert_flags cfg F B = RTLD_LAZY cfg
             else RTLD_NOW cfg AND mono_dl_convert_flags cfg F B = RTLD_NOW cfg)
         \<and> (MONO_DL_GLOBAL cfg \<noteq> 0 \<and> MONO_DL_GLOBAL cfg AND MONO_DL_LOCAL cfg = 0 \<and>
              MONO_DL_GLOBAL cfg AND MONO_DL_LAZY cfg = 0 \<longrightarrow>
              mono_dl_convert_flags cfg (MONO_DL_GLOBAL cfg) 0 = RTLD_GLOBAL cfg OR RTLD_NOW cfg)"
proof (intro conjI)
  show "\<exists>scope. (scope = RTLD_GLOBAL cfg \<or> scope = RTLD_LOCAL cfg) \<and>
            mono_dl_convert_flags cfg F B =
              (B OR scope) OR (if F AND MONO_DL_LAZY cfg \<noteq> 0 then RTLD_LAZY cfg else RTLD_NOW cfg)"
  proof (cases "F AND MONO_DL_GLOBAL cfg \<noteq> 0 \<and> \<not> (F AND MONO_DL_LOCAL cfg \<noteq> 0)")
    case True
    with assms have "mono_dl_convert_flags cfg F B =
        (B OR RTLD_GLOBAL cfg)
          OR (if F AND MONO_DL_LAZY cfg \<noteq> 0 then RTLD_LAZY cfg else RTLD_NOW cfg)"
      by (simp add: mono_dl_convert_flags_def Let_def)
    then show ?thesis by blast
  next
    case False
    with assms have "mono_dl_convert_flags cfg F B =
        (B OR RTLD_LOCAL cfg)
          OR (if F AND MONO_DL_LAZY cfg \<noteq> 0 then RTLD_LAZY cfg else RTLD_NOW cfg)"
      by (auto simp: mono_dl_convert_flags_def Let_def)
    then show ?thesis by blast
  qed
  show "if F AND MONO_DL_LAZY cfg \<noteq> 0
        then RTLD_LAZY cfg AND mono_dl_convert_flags cfg F B = RTLD_LAZY cfg
        else RTLD_NOW cfg AND mono_dl_convert_flags cfg F B = RTLD_NOW cfg"
    using assms by (simp add: mono_dl_convert_flags_def Let_def)
  show "MONO_DL_GLOBAL cfg \<noteq> 0 \<and> MONO_DL_GLOBAL cfg AND MONO_DL_LOCAL cfg = 0 \<and>
          MONO_DL_GLOBAL cfg AND MONO_DL_LAZY cfg = 0 \<longrightarrow>
        mono_dl_convert_flags cfg (MONO_DL_GLOBAL cfg) 0 = RTLD_GLOBAL cfg OR RTLD_NOW cfg"
    using assms by (simp add: mono_dl_convert_flags_def Let_def)
qed

theorem convert_flags_binding_witness:
  "\<not> HOST_WASI full_host
   \<and> MONO_DL_GLOBAL full_host \<noteq> 0
   \<and> MONO_DL_GLOBAL full_host AND MONO_DL_LOCAL full_host = 0
   \<and> MONO_DL_GLOBAL full_host AND MONO_DL_LAZY full_host = 0
   \<and> MONO_DL_GLOBAL full_host = 4 \<and> RTLD_GLOBAL full_host OR RTLD_NOW full_host = 258
   \<and> mono_dl_convert_flags full_host 4 0 = 258
   \<and> RTLD_LAZY full_host AND mono_dl_convert_flags full_host 5 0 = RTLD_LAZY full_host"
  using convert_flags_binding [of full_host 4 0] convert_flags_binding [of full_host 5 0]
  by (simp add: full_host_def)

text \<open>
  C3. Whatever the portable flags and whichever host variant, every bit of the
  native baseline is still set in the result: the translator only ORs bits into the
  baseline.
\<close>

theorem convert_flags_keeps_baseline:
  "native_flags AND mono_dl_convert_flags cfg mono_flags native_flags = native_flags
   \<and> (\<forall>n. bit native_flags n \<longrightarrow> bit (mono_dl_convert_flags cfg mono_flags native_flags) n)"
proof -
  have sub: "native_flags AND mono_dl_convert_flags cfg mono_flags native_flags = native_flags"
    by (simp add: mono_dl_convert_flags_def Let_def word_bw_assocs)
  have "bit (mono_dl_convert_flags cfg mono_flags native_flags) n" if "bit native_flags n" for n
  proof -
    from that sub
    have "bit (native_flags AND mono_dl_convert_flags cfg mono_flags native_flags) n"
      by simp
    then show ?thesis by (simp add: bit_and_iff)
  qed
  with sub show ?thesis by blast
qed

theorem convert_flags_keeps_baseline_witness:
  "bit (4096 :: c_int) 12 \<and> bit (mono_dl_convert_flags full_host 7 4096) 12
   \<and> bit (42 :: c_int) 3 \<and> bit (mono_dl_convert_flags wasi_host 7 42) 3"
proof -
  have a: "bit (4096 :: c_int) 12" by (simp add: bit_iff_odd)
  have b: "bit (42 :: c_int) 3" by (simp add: bit_iff_odd)
  from a b convert_flags_keeps_baseline [of 4096 full_host 7]
    convert_flags_keeps_baseline [of 42 wasi_host 7]
  show ?thesis by blast
qed

text \<open>
  C4. On the minimal host (\<open>HOST_WASI\<close>) the translator returns the native baseline
  as it is, whatever the portable flags. The result is an ordinary \<open>int\<close>: there is
  no error value.
\<close>

theorem convert_flags_wasi:
  assumes "HOST_WASI cfg"
  shows "mono_dl_convert_flags cfg F B = B"
  using assms by (simp add: mono_dl_convert_flags_def)

theorem convert_flags_wasi_witness:
  "HOST_WASI wasi_host \<and> mono_dl_convert_flags wasi_host 7 42 = 42"
proof -
  have h: "HOST_WASI wasi_host" by (simp add: wasi_host_def)
  from h convert_flags_wasi [OF h, of 7 42] show ?thesis by simp
qed

text \<open>
  C10. The result depends on the portable flags only through their GLOBAL, LOCAL and
  LAZY parts: two flag words with the same bits under each of the three masks
  translate to the same result over the same baseline, on either host variant.
\<close>

theorem convert_flags_other_bits_ignored:
  assumes "F1 AND MONO_DL_GLOBAL cfg = F2 AND MONO_DL_GLOBAL cfg"
    and "F1 AND MONO_DL_LOCAL cfg = F2 AND MONO_DL_LOCAL cfg"
    and "F1 AND MONO_DL_LAZY cfg = F2 AND MONO_DL_LAZY cfg"
  shows "mono_dl_convert_flags cfg F1 B = mono_dl_convert_flags cfg F2 B"
  using assms by (simp add: mono_dl_convert_flags_def)

theorem convert_flags_other_bits_ignored_witness:
  "(5 :: c_int) \<noteq> 2147483693
   \<and> (5 :: c_int) AND MONO_DL_GLOBAL full_host = 2147483693 AND MONO_DL_GLOBAL full_host
   \<and> (5 :: c_int) AND MONO_DL_LOCAL full_host = 2147483693 AND MONO_DL_LOCAL full_host
   \<and> (5 :: c_int) AND MONO_DL_LAZY full_host = 2147483693 AND MONO_DL_LAZY full_host
   \<and> mono_dl_convert_flags full_host 5 4096 = mono_dl_convert_flags full_host 2147483693 4096"
proof -
  have g: "(5 :: c_int) AND MONO_DL_GLOBAL full_host = 2147483693 AND MONO_DL_GLOBAL full_host"
    by (simp add: full_host_def)
  have l: "(5 :: c_int) AND MONO_DL_LOCAL full_host = 2147483693 AND MONO_DL_LOCAL full_host"
    by (simp add: full_host_def)
  have z: "(5 :: c_int) AND MONO_DL_LAZY full_host = 2147483693 AND MONO_DL_LAZY full_host"
    by (simp add: full_host_def)
  from g l z convert_flags_other_bits_ignored [OF g l z, of 4096] show ?thesis by simp
qed

section \<open>Properties of the platform shape\<close>

text \<open>
  C5. The library-name prefix is the empty string; the suffix list is \<open>".wasm"\<close>
  followed by the empty string, two entries and no more; there is no system library
  directory.
\<close>

theorem platform_shape:
  "mono_dl_get_so_prefix = Some ''''
   \<and> mono_dl_get_so_suffixes = [Some ''.wasm'', Some '''']
   \<and> length mono_dl_get_so_suffixes = 2
   \<and> hd mono_dl_get_so_suffixes = Some ''.wasm''
   \<and> last mono_dl_get_so_suffixes = Some ''''
   \<and> mono_dl_get_system_dir = None"
  by (simp add: mono_dl_get_so_prefix_def mono_dl_get_so_suffixes_def mono_dl_get_system_dir_def)

section \<open>Properties of the inert operations\<close>

text \<open>
  C6. Opening a file returns \<open>NULL\<close> for every file name, every flag word, every
  error sink and every memory.
\<close>

theorem open_file_absent:
  "fst (mono_dl_open_file file flags error w) = None"
  by (simp add: mono_dl_open_file_def)

text \<open>
  C7. Looking a symbol up returns \<open>NULL\<close> for every module handle and every symbol
  name.
\<close>

theorem lookup_symbol_absent:
  "fst (mono_dl_lookup_symbol module name w) = None"
  by (simp add: mono_dl_lookup_symbol_def)

lemma foldr_max_upper: "a \<in> set xs \<Longrightarrow> a \<le> foldr max xs (0::nat)"
proof (induction xs)
  case Nil
  then show ?case by simp
next
  case (Cons x xs)
  show ?case
  proof (cases "a = x")
    case True
    then show ?thesis by simp
  next
    case False
    with Cons have "a \<le> foldr max xs 0" by simp
    then show ?thesis by (simp add: max.coboundedI2)
  qed
qed

lemma g_fresh_above: "a \<in> fst ` set h \<Longrightarrow> a < g_fresh h"
  using foldr_max_upper [of a "map fst h"] by (simp add: g_fresh_def less_Suc_eq_le)

lemma g_fresh_unallocated: "map_of h (g_fresh h) = None"
  using g_fresh_above [of "g_fresh h" h] by (auto simp: map_of_eq_None_iff)

lemma current_error_string_step:
  "mono_dl_current_error_string w =
     (Some (g_fresh (g_heap w)), w\<lparr>g_heap := (g_fresh (g_heap w), '''') # g_heap w\<rparr>)"
  by (simp add: mono_dl_current_error_string_def g_strdup_def Let_def)

text \<open>
  C8. The error-string accessor returns a pointer that is not \<open>NULL\<close>, to a block that
  was not live before the call and holds the empty string afterwards, while every
  other block of the heap is as it was. A second call returns a different block, and
  both blocks are then live and hold the empty string: the two results are
  independent allocations. The modules and the error sinks are as they were.
\<close>

theorem current_error_string_fresh:
  "\<exists>p q w1 w2.
     mono_dl_current_error_string w = (Some p, w1)
     \<and> map_of (g_heap w) p = None
     \<and> map_of (g_heap w1) = (map_of (g_heap w))(p \<mapsto> '''')
     \<and> mono_dl_current_error_string w1 = (Some q, w2)
     \<and> q \<noteq> p
     \<and> map_of (g_heap w2) = (map_of (g_heap w))(p \<mapsto> '''', q \<mapsto> '''')
     \<and> dl_modules w2 = dl_modules w \<and> mono_errors w2 = mono_errors w"
proof -
  define p where "p = g_fresh (g_heap w)"
  define w1 where "w1 = w\<lparr>g_heap := (p, '''') # g_heap w\<rparr>"
  define q where "q = g_fresh (g_heap w1)"
  define w2 where "w2 = w1\<lparr>g_heap := (q, '''') # g_heap w1\<rparr>"
  have first: "mono_dl_current_error_string w = (Some p, w1)"
    by (simp add: current_error_string_step p_def w1_def)
  have second: "mono_dl_current_error_string w1 = (Some q, w2)"
    by (simp add: current_error_string_step q_def w2_def)
  have fresh: "map_of (g_heap w) p = None"
    by (simp add: p_def g_fresh_unallocated)
  have h1: "map_of (g_heap w1) = (map_of (g_heap w))(p \<mapsto> '''')"
    by (simp add: w1_def)
  have "p \<in> fst ` set (g_heap w1)"
    by (simp add: w1_def)
  then have "p < q"
    unfolding q_def by (rule g_fresh_above)
  then have distinct: "q \<noteq> p" by simp
  have h2: "map_of (g_heap w2) = (map_of (g_heap w))(p \<mapsto> '''', q \<mapsto> '''')"
    by (simp add: w2_def h1)
  have frame: "dl_modules w2 = dl_modules w \<and> mono_errors w2 = mono_errors w"
    by (simp add: w2_def w1_def)
  from first fresh h1 second distinct h2 frame show ?thesis by blast
qed

text \<open>
  C9. No operation writes to an error sink. Opening a file and closing a handle, the
  two operations that are handed one, return the memory they were given, error sinks
  included, for every argument; closing does so for every handle, \<open>NULL\<close> among them.
  Symbol lookup returns the memory as it was too.
\<close>

theorem error_sink_untouched:
  "snd (mono_dl_open_file file flags error w) = w
   \<and> mono_errors (snd (mono_dl_open_file file flags error w)) = mono_errors w
   \<and> mono_dl_close_handle module error w = w
   \<and> mono_dl_close_handle None error w = w
   \<and> mono_errors (mono_dl_close_handle module error w) = mono_errors w
   \<and> snd (mono_dl_lookup_symbol module name w) = w"
  by (simp add: mono_dl_open_file_def mono_dl_close_handle_def mono_dl_lookup_symbol_def)

end
